theory Spec2Isabelle
  imports Complex_Main
begin

section \<open>Data model (types.ts)\<close>

text \<open>
  The TypeScript interfaces of \<^verbatim>\<open>types.ts\<close> become records. A JavaScript
  \<^verbatim>\<open>number\<close> is modelled as an exact \<^typ>\<open>real\<close>: the development speaks about
  finite real inputs and leaves rounding, overflow and NaN out of the model.
  Record fields are constants in Isabelle, so the one-letter field names of the source
  carry a prefix: \<open>a, b, c, d\<close> of \<^verbatim>\<open>Matrix2x2\<close> are \<open>ma, mb, mc, md\<close>;
  \<open>x, y\<close> of \<^verbatim>\<open>Point\<close> are \<open>px, py\<close>; \<open>x, y\<close> of \<^verbatim>\<open>ComplexVector\<close> are
  \<open>vx, vy\<close>.
\<close>

record Matrix2x2 =
  ma :: real
  mb :: real
  mc :: real
  md :: real

record Point =
  px :: real
  py :: real

record ComplexNumber =
  re :: real
  im :: real

record ComplexVector =
  vx :: ComplexNumber
  vy :: ComplexNumber

text \<open>The field \<^verbatim>\<open>eigenvectors\<close> is a pair or \<^verbatim>\<open>null\<close>: an option.\<close>

record EquilibriumAnalysis =
  trace :: real
  determinant :: real
  discriminant :: real
  eigenvalues :: "ComplexNumber \<times> ComplexNumber"
  eigenvectors :: "(ComplexVector \<times> ComplexVector) option"
  classification :: string
  stability :: string

section \<open>The trajectory integrator (solveODE)\<close>

text \<open>The closure \<^verbatim>\<open>f\<close> of \<^verbatim>\<open>solveODE\<close>: the vector field of the matrix.\<close>

definition f :: "Matrix2x2 \<Rightarrow> Point \<Rightarrow> Point" where
  "f matrix p =
     \<lparr>px = ma matrix * px p + mb matrix * py p,
      py = mc matrix * px p + md matrix * py p\<rparr>"

text \<open>
  A call of \<^verbatim>\<open>f\<close> with a ghost counter: the second component counts the
  evaluations of \<^verbatim>\<open>f\<close> made so far. The counter is not in the source; it records
  each call site of the loop body so that the number of evaluations can be stated.
\<close>

definition f_call :: "Matrix2x2 \<Rightarrow> Point \<Rightarrow> nat \<Rightarrow> Point \<times> nat" where
  "f_call matrix p n = (f matrix p, Suc n)"

text \<open>
  The body of the \<^verbatim>\<open>for\<close> loop up to the assignment of \<^verbatim>\<open>current\<close>
  (lines 26 to 43): the four stages and the new point, componentwise as in the source.
\<close>

definition rk_body :: "Matrix2x2 \<Rightarrow> real \<Rightarrow> Point \<Rightarrow> nat \<Rightarrow> Point \<times> nat" where
  "rk_body matrix h current n =
     (let (k1, n1) = f_call matrix current n;
          (k2, n2) = f_call matrix
             \<lparr>px = px current + (h / 2) * px k1,
              py = py current + (h / 2) * py k1\<rparr> n1;
          (k3, n3) = f_call matrix
             \<lparr>px = px current + (h / 2) * px k2,
              py = py current + (h / 2) * py k2\<rparr> n2;
          (k4, n4) = f_call matrix
             \<lparr>px = px current + h * px k3,
              py = py current + h * py k3\<rparr> n3
      in (\<lparr>px = px current + (h / 6) * (px k1 + 2 * px k2 + 2 * px k3 + px k4),
           py = py current + (h / 6) * (py k1 + 2 * py k2 + 2 * py k3 + py k4)\<rparr>, n4))"

text \<open>
  The loop \<^verbatim>\<open>for (let i = 0; i < steps; i++)\<close> as a recursion on the loop
  variables \<open>i\<close>, \<open>current\<close> and \<open>points\<close> (and the ghost counter). The
  \<^verbatim>\<open>break\<close> returns the points pushed so far. The step count is an integer; a
  count that is zero or negative runs no iteration.
\<close>

function solve_loop ::
  "Matrix2x2 \<Rightarrow> real \<Rightarrow> int \<Rightarrow> int \<Rightarrow> Point \<Rightarrow> Point list \<Rightarrow> nat \<Rightarrow> Point list \<times> nat" where
  "solve_loop matrix h steps i current points n =
     (if i < steps then
        (let (current', n') = rk_body matrix h current n in
         if \<bar>px current'\<bar> > 20 \<or> \<bar>py current'\<bar> > 20 then (points, n')
         else solve_loop matrix h steps (i + 1) current' (points @ [current']) n')
      else (points, n))"
  by pat_completeness auto
termination
  by (relation "measure (\<lambda>(matrix, h, steps, i, current, points, n). nat (steps - i))") auto

definition solveODE_run ::
  "Matrix2x2 \<Rightarrow> Point \<Rightarrow> int \<Rightarrow> real \<Rightarrow> bool \<Rightarrow> Point list \<times> nat" where
  "solveODE_run matrix initial steps dt forward =
     (let points = [initial];
          current = initial;
          direction = (if forward then 1 else - 1);
          h = dt * direction
      in solve_loop matrix h steps 0 current points 0)"

text \<open>
  \<^verbatim>\<open>solveODE\<close> returns the array of points. The default arguments of the source
  (200 steps, \<open>dt = 0.05\<close>, forward) stand for arguments the caller leaves out; the
  model takes all five.
\<close>

definition solveODE :: "Matrix2x2 \<Rightarrow> Point \<Rightarrow> int \<Rightarrow> real \<Rightarrow> bool \<Rightarrow> Point list" where
  "solveODE matrix initial steps dt forward = fst (solveODE_run matrix initial steps dt forward)"

text \<open>The number of evaluations of \<^verbatim>\<open>f\<close> made by one call of \<^verbatim>\<open>solveODE\<close>.\<close>

definition solveODE_f_calls :: "Matrix2x2 \<Rightarrow> Point \<Rightarrow> int \<Rightarrow> real \<Rightarrow> bool \<Rightarrow> nat" where
  "solveODE_f_calls matrix initial steps dt forward =
     snd (solveODE_run matrix initial steps dt forward)"

section \<open>The equilibrium classifier (analyzeMatrix)\<close>

text \<open>
  \<^verbatim>\<open>Math.sqrt\<close> is \<^const>\<open>sqrt\<close>; the source applies it to sums of squares, to
  \<open>disc\<close> under \<open>disc \<ge> 0\<close> and to \<open>- disc\<close> under \<open>disc < 0\<close> only, so the
  argument is never negative. No divisor of \<^verbatim>\<open>getEigenvector\<close> is zero: \<open>mag\<close>
  is the root of a positive sum and \<open>row2.c\<close> is tested before the division.
\<close>

definition getEigenvector :: "Matrix2x2 \<Rightarrow> real \<Rightarrow> ComplexVector" where
  "getEigenvector m ev =
     (let row1_a = ma m - ev; row1_b = mb m in
      if \<bar>row1_b\<bar> > 1 / 10 ^ 9 then
        (let mag = sqrt (row1_b * row1_b + row1_a * row1_a) in
         \<lparr>vx = \<lparr>re = - row1_b / mag, im = 0\<rparr>,
          vy = \<lparr>re = row1_a / mag, im = 0\<rparr>\<rparr>)
      else if \<bar>row1_a\<bar> > 1 / 10 ^ 9 then
        \<lparr>vx = \<lparr>re = 0, im = 0\<rparr>,
         vy = \<lparr>re = 1, im = 0\<rparr>\<rparr>
      else
        (let row2_c = mc m; row2_d = md m - ev in
         if \<bar>row2_c\<bar> > 1 / 10 ^ 9 then
           (let xVal = - row2_d / row2_c;
                mag = sqrt (xVal * xVal + 1) in
            \<lparr>vx = \<lparr>re = xVal / mag, im = 0\<rparr>,
             vy = \<lparr>re = 1 / mag, im = 0\<rparr>\<rparr>)
         else
           \<lparr>vx = \<lparr>re = 1, im = 0\<rparr>,
            vy = \<lparr>re = 0, im = 0\<rparr>\<rparr>))"

text \<open>
  The two mutable variables \<^verbatim>\<open>classification\<close> and \<^verbatim>\<open>stability\<close> start
  as \<^verbatim>\<open>"Unknown"\<close> and \<^verbatim>\<open>"Neutral"\<close> and are assigned in the branches of the
  nested conditional; the model passes them as a pair.
\<close>

definition analyzeMatrix :: "Matrix2x2 \<Rightarrow> EquilibriumAnalysis" where
  "analyzeMatrix m =
     (let tr = ma m + md m;
          det = ma m * md m - mb m * mc m;
          disc = tr * tr - 4 * det;
          (eigenvalues, eigenvectors) =
            (if disc \<ge> 0 then
               (let r1 = (tr + sqrt disc) / 2;
                    r2 = (tr - sqrt disc) / 2
                in ((\<lparr>re = r1, im = 0\<rparr>, \<lparr>re = r2, im = 0\<rparr>),
                    Some (getEigenvector m r1, getEigenvector m r2)))
             else
               (let re = tr / 2;
                    im = sqrt (- disc) / 2
                in ((\<lparr>re = re, im = im\<rparr>, \<lparr>re = re, im = - im\<rparr>), None)));
          (classification, stability) = (''Unknown'', ''Neutral'');
          (classification, stability) =
            (if det < 0 then (''Saddle Point'', ''Unstable'')
             else if det > 0 then
               (if disc > 0 then
                  (''Node'', if tr > 0 then ''Unstable (Source)'' else ''Stable (Sink)'')
                else if disc < 0 then
                  (if \<bar>tr\<bar> < 1 / 10 ^ 9 then (''Center'', ''Neutrally Stable'')
                   else (''Spiral Point'',
                         if tr > 0 then ''Unstable (Spiral Source)'' else ''Stable (Spiral Sink)''))
                else
                  (''Proper/Improper Node'', if tr > 0 then ''Unstable'' else ''Stable''))
             else (''Degenerate (Non-isolated)'', ''Marginally Stable''))
      in \<lparr>trace = tr,
          determinant = det,
          discriminant = disc,
          eigenvalues = eigenvalues,
          eigenvectors = eigenvectors,
          classification = classification,
          stability = stability\<rparr>)"

section \<open>Notions used to state the properties\<close>

text \<open>
  Vector arithmetic on points, and the Runge-Kutta step written with it as the
  specification words it: \<open>k1 = f(current)\<close>, \<open>k2 = f(current + (h/2) k1)\<close>,
  \<open>k3 = f(current + (h/2) k2)\<close>, \<open>k4 = f(current + h k3)\<close> and
  \<open>next = current + (h/6) (k1 + 2 k2 + 2 k3 + k4)\<close>. It is compared with \<open>rk_body\<close>,
  the step taken from the source.
\<close>

definition padd :: "Point \<Rightarrow> Point \<Rightarrow> Point" where
  "padd p q = \<lparr>px = px p + px q, py = py p + py q\<rparr>"

definition pscale :: "real \<Rightarrow> Point \<Rightarrow> Point" where
  "pscale s p = \<lparr>px = s * px p, py = s * py p\<rparr>"

definition spec_rk4 :: "Matrix2x2 \<Rightarrow> real \<Rightarrow> Point \<Rightarrow> Point" where
  "spec_rk4 matrix h current =
     (let k1 = f matrix current;
          k2 = f matrix (padd current (pscale (h / 2) k1));
          k3 = f matrix (padd current (pscale (h / 2) k2));
          k4 = f matrix (padd current (pscale h k3))
      in padd current
           (pscale (h / 6) (padd (padd (padd k1 (pscale 2 k2)) (pscale 2 k3)) k4)))"

text \<open>The test of line 45: a coordinate of absolute value above 20.\<close>

definition beyond_cutoff :: "Point \<Rightarrow> bool" where
  "beyond_cutoff p = (\<bar>px p\<bar> > 20 \<or> \<bar>py p\<bar> > 20)"

text \<open>
  The points the loop pushes in at most \<open>k\<close> further iterations from \<open>current\<close>,
  and the number of iterations it runs (the one that breaks included). Both follow the
  loop by recursion on the number of iterations left.
\<close>

fun pushed :: "Matrix2x2 \<Rightarrow> real \<Rightarrow> nat \<Rightarrow> Point \<Rightarrow> Point list" where
  "pushed matrix h 0 current = []"
| "pushed matrix h (Suc k) current =
     (let current' = fst (rk_body matrix h current 0) in
      if beyond_cutoff current' then []
      else current' # pushed matrix h k current')"

fun iterations :: "Matrix2x2 \<Rightarrow> real \<Rightarrow> nat \<Rightarrow> Point \<Rightarrow> nat" where
  "iterations matrix h 0 current = 0"
| "iterations matrix h (Suc k) current =
     (let current' = fst (rk_body matrix h current 0) in
      if beyond_cutoff current' then 1
      else Suc (iterations matrix h k current'))"







declare solve_loop.simps [simp del]

section \<open>The fields of the analysis record\<close>

text \<open>Each field of the record returned by \<^verbatim>\<open>analyzeMatrix\<close>, read off the definition.\<close>

lemma analyze_trace: "trace (analyzeMatrix m) = ma m + md m"
  by (simp add: analyzeMatrix_def Let_def case_prod_beta)

lemma analyze_determinant: "determinant (analyzeMatrix m) = ma m * md m - mb m * mc m"
  by (simp add: analyzeMatrix_def Let_def case_prod_beta)

lemma analyze_discriminant:
  "discriminant (analyzeMatrix m) =
     (ma m + md m) * (ma m + md m) - 4 * (ma m * md m - mb m * mc m)"
  by (simp add: analyzeMatrix_def Let_def case_prod_beta)

lemma analyze_eigenvalues:
  "eigenvalues (analyzeMatrix m) =
     (if discriminant (analyzeMatrix m) \<ge> 0 then
        (\<lparr>re = (trace (analyzeMatrix m) + sqrt (discriminant (analyzeMatrix m))) / 2, im = 0\<rparr>,
         \<lparr>re = (trace (analyzeMatrix m) - sqrt (discriminant (analyzeMatrix m))) / 2, im = 0\<rparr>)
      else
        (\<lparr>re = trace (analyzeMatrix m) / 2, im = sqrt (- discriminant (analyzeMatrix m)) / 2\<rparr>,
         \<lparr>re = trace (analyzeMatrix m) / 2, im = - (sqrt (- discriminant (analyzeMatrix m)) / 2)\<rparr>))"
  unfolding analyze_trace analyze_discriminant
  by (simp add: analyzeMatrix_def Let_def case_prod_beta)

lemma analyze_eigenvectors:
  "eigenvectors (analyzeMatrix m) =
     (if discriminant (analyzeMatrix m) \<ge> 0 then
        Some (getEigenvector m ((trace (analyzeMatrix m) + sqrt (discriminant (analyzeMatrix m))) / 2),
              getEigenvector m ((trace (analyzeMatrix m) - sqrt (discriminant (analyzeMatrix m))) / 2))
      else None)"
  unfolding analyze_trace analyze_discriminant
  by (simp add: analyzeMatrix_def Let_def case_prod_beta)

lemma analyze_classification:
  "classification (analyzeMatrix m) =
     (if determinant (analyzeMatrix m) < 0 then ''Saddle Point''
      else if determinant (analyzeMatrix m) > 0 then
        (if discriminant (analyzeMatrix m) > 0 then ''Node''
         else if discriminant (analyzeMatrix m) < 0 then
           (if \<bar>trace (analyzeMatrix m)\<bar> < 1 / 10 ^ 9 then ''Center'' else ''Spiral Point'')
         else ''Proper/Improper Node'')
      else ''Degenerate (Non-isolated)'')"
  unfolding analyze_trace analyze_discriminant analyze_determinant
  by (simp add: analyzeMatrix_def Let_def case_prod_beta)

lemma analyze_stability:
  "stability (analyzeMatrix m) =
     (if determinant (analyzeMatrix m) < 0 then ''Unstable''
      else if determinant (analyzeMatrix m) > 0 then
        (if discriminant (analyzeMatrix m) > 0 then
           (if trace (analyzeMatrix m) > 0 then ''Unstable (Source)'' else ''Stable (Sink)'')
         else if discriminant (analyzeMatrix m) < 0 then
           (if \<bar>trace (analyzeMatrix m)\<bar> < 1 / 10 ^ 9 then ''Neutrally Stable''
            else if trace (analyzeMatrix m) > 0 then ''Unstable (Spiral Source)''
            else ''Stable (Spiral Sink)'')
         else (if trace (analyzeMatrix m) > 0 then ''Unstable'' else ''Stable''))
      else ''Marginally Stable'')"
  unfolding analyze_trace analyze_discriminant analyze_determinant
  by (simp add: analyzeMatrix_def Let_def case_prod_beta)

section \<open>Properties of the classifier\<close>

text \<open>
  Claim C1. The classification and the stability follow the ordered decision tree on
  the determinant, the discriminant and the trace: a negative determinant is a saddle
  point; a positive determinant gives a node, a center or spiral point, or a
  proper/improper node as the discriminant is positive, negative or exactly zero; a
  determinant that is exactly zero is degenerate. The signs of the determinant and of
  the discriminant are tested exactly, and only the trace test between center and spiral
  point uses the tolerance \<open>1e-9\<close>.
\<close>

theorem classify_decision_tree:
  "let r = analyzeMatrix m;
       tr = ma m + md m;
       det = ma m * md m - mb m * mc m;
       disc = tr * tr - 4 * det
   in (det < 0 \<longrightarrow> classification r = ''Saddle Point'' \<and> stability r = ''Unstable'')
    \<and> (det > 0 \<and> disc > 0 \<longrightarrow>
         classification r = ''Node''
         \<and> stability r = (if tr > 0 then ''Unstable (Source)'' else ''Stable (Sink)''))
    \<and> (det > 0 \<and> disc < 0 \<and> \<bar>tr\<bar> < 1 / 10 ^ 9 \<longrightarrow>
         classification r = ''Center'' \<and> stability r = ''Neutrally Stable'')
    \<and> (det > 0 \<and> disc < 0 \<and> \<bar>tr\<bar> \<ge> 1 / 10 ^ 9 \<longrightarrow>
         classification r = ''Spiral Point''
         \<and> stability r = (if tr > 0 then ''Unstable (Spiral Source)'' else ''Stable (Spiral Sink)''))
    \<and> (det > 0 \<and> disc = 0 \<longrightarrow>
         classification r = ''Proper/Improper Node''
         \<and> stability r = (if tr > 0 then ''Unstable'' else ''Stable''))
    \<and> (det = 0 \<longrightarrow>
         classification r = ''Degenerate (Non-isolated)'' \<and> stability r = ''Marginally Stable'')"
  unfolding Let_def analyze_classification analyze_stability
    analyze_trace analyze_discriminant analyze_determinant
  by (intro conjI impI; simp)

theorem classify_decision_tree_witness:
  "classification (analyzeMatrix \<lparr>ma = 1, mb = 0, mc = 0, md = - 1\<rparr>) = ''Saddle Point''
   \<and> stability (analyzeMatrix \<lparr>ma = 1, mb = 0, mc = 0, md = - 1\<rparr>) = ''Unstable''
   \<and> classification (analyzeMatrix \<lparr>ma = - 2, mb = 0, mc = 0, md = - 1\<rparr>) = ''Node''
   \<and> stability (analyzeMatrix \<lparr>ma = - 2, mb = 0, mc = 0, md = - 1\<rparr>) = ''Stable (Sink)''
   \<and> classification (analyzeMatrix \<lparr>ma = 0, mb = - 2, mc = 2, md = 0\<rparr>) = ''Center''
   \<and> stability (analyzeMatrix \<lparr>ma = 0, mb = - 2, mc = 2, md = 0\<rparr>) = ''Neutrally Stable''
   \<and> classification (analyzeMatrix \<lparr>ma = - 1, mb = - 2, mc = 2, md = - 1\<rparr>) = ''Spiral Point''
   \<and> stability (analyzeMatrix \<lparr>ma = - 1, mb = - 2, mc = 2, md = - 1\<rparr>) = ''Stable (Spiral Sink)''
   \<and> classification (analyzeMatrix \<lparr>ma = 1, mb = 0, mc = 0, md = 1\<rparr>) = ''Proper/Improper Node''
   \<and> stability (analyzeMatrix \<lparr>ma = 1, mb = 0, mc = 0, md = 1\<rparr>) = ''Unstable''
   \<and> classification (analyzeMatrix \<lparr>ma = 0, mb = 0, mc = 0, md = 0\<rparr>) = ''Degenerate (Non-isolated)''
   \<and> stability (analyzeMatrix \<lparr>ma = 0, mb = 0, mc = 0, md = 0\<rparr>) = ''Marginally Stable''"
  using classify_decision_tree [of "\<lparr>ma = 1, mb = 0, mc = 0, md = - 1\<rparr>"]
    classify_decision_tree [of "\<lparr>ma = - 2, mb = 0, mc = 0, md = - 1\<rparr>"]
    classify_decision_tree [of "\<lparr>ma = 0, mb = - 2, mc = 2, md = 0\<rparr>"]
    classify_decision_tree [of "\<lparr>ma = - 1, mb = - 2, mc = 2, md = - 1\<rparr>"]
    classify_decision_tree [of "\<lparr>ma = 1, mb = 0, mc = 0, md = 1\<rparr>"]
    classify_decision_tree [of "\<lparr>ma = 0, mb = 0, mc = 0, md = 0\<rparr>"]
  by (simp add: Let_def)

text \<open>
  Claim C3. When the discriminant is not negative the eigenvalues are the real pair
  \<open>(tr + sqrt disc) / 2\<close>, \<open>(tr - sqrt disc) / 2\<close> in this order, with zero
  imaginary parts; when it is negative they are the conjugate pair with real part
  \<open>tr / 2\<close> and imaginary parts \<open>sqrt (- disc) / 2\<close> and its negation, the entry with
  the positive imaginary part first.
\<close>

theorem classify_eigenvalues:
  "let r = analyzeMatrix m;
       tr = ma m + md m;
       disc = tr * tr - 4 * (ma m * md m - mb m * mc m)
   in (disc \<ge> 0 \<longrightarrow>
         eigenvalues r =
           (\<lparr>re = (tr + sqrt disc) / 2, im = 0\<rparr>, \<lparr>re = (tr - sqrt disc) / 2, im = 0\<rparr>))
    \<and> (disc < 0 \<longrightarrow>
         eigenvalues r =
           (\<lparr>re = tr / 2, im = sqrt (- disc) / 2\<rparr>, \<lparr>re = tr / 2, im = - (sqrt (- disc) / 2)\<rparr>)
         \<and> im (fst (eigenvalues r)) > 0
         \<and> im (snd (eigenvalues r)) = - im (fst (eigenvalues r)))"
  unfolding Let_def analyze_eigenvalues analyze_trace analyze_discriminant
  by simp

theorem classify_eigenvalues_witness:
  "eigenvalues (analyzeMatrix \<lparr>ma = 1, mb = 0, mc = 0, md = - 1\<rparr>) =
     (\<lparr>re = 1, im = 0\<rparr>, \<lparr>re = - 1, im = 0\<rparr>)
   \<and> eigenvalues (analyzeMatrix \<lparr>ma = 0, mb = - 1, mc = 1, md = 0\<rparr>) =
     (\<lparr>re = 0, im = 1\<rparr>, \<lparr>re = 0, im = - 1\<rparr>)"
  using classify_eigenvalues [of "\<lparr>ma = 1, mb = 0, mc = 0, md = - 1\<rparr>"]
    classify_eigenvalues [of "\<lparr>ma = 0, mb = - 1, mc = 1, md = 0\<rparr>"]
  by (simp add: Let_def)

text \<open>
  Claim C6. The field \<open>eigenvectors\<close> of the returned record is present if and only
  if the discriminant is not negative; for a negative discriminant it is absent.
\<close>

theorem eigenvectors_present_iff:
  "(eigenvectors (analyzeMatrix m) \<noteq> None) = (discriminant (analyzeMatrix m) \<ge> 0)
   \<and> (discriminant (analyzeMatrix m) < 0) = (eigenvectors (analyzeMatrix m) = None)"
  unfolding analyze_eigenvectors by auto


text \<open>
  Claim C9, as amended. The classification is always one of the six classification
  tags and the stability is always one of the eight stability tags the decision tree
  names; the initial values \<open>Unknown\<close> and \<open>Neutral\<close> are never returned.
\<close>

theorem classify_tags:
  "classification (analyzeMatrix m) \<in>
     {''Saddle Point'', ''Node'', ''Center'', ''Spiral Point'', ''Proper/Improper Node'',
      ''Degenerate (Non-isolated)''}
   \<and> stability (analyzeMatrix m) \<in>
     {''Unstable'', ''Unstable (Source)'', ''Stable (Sink)'', ''Neutrally Stable'',
      ''Unstable (Spiral Source)'', ''Stable (Spiral Sink)'', ''Stable'', ''Marginally Stable''}
   \<and> classification (analyzeMatrix m) \<noteq> ''Unknown''
   \<and> stability (analyzeMatrix m) \<noteq> ''Neutral''"
  unfolding analyze_classification analyze_stability by simp

text \<open>
  Claim C9, counterexample to the count of six stability tags: the eight matrices
  below are given eight different stability tags.
\<close>

theorem eight_stability_tags:
  "card (stability ` analyzeMatrix `
     {\<lparr>ma = 1, mb = 0, mc = 0, md = - 1\<rparr>,
      \<lparr>ma = 1, mb = 0, mc = 0, md = 2\<rparr>,
      \<lparr>ma = - 1, mb = 0, mc = 0, md = - 2\<rparr>,
      \<lparr>ma = 0, mb = - 1, mc = 1, md = 0\<rparr>,
      \<lparr>ma = 1, mb = - 1, mc = 1, md = 1\<rparr>,
      \<lparr>ma = - 1, mb = - 1, mc = 1, md = - 1\<rparr>,
      \<lparr>ma = - 1, mb = 0, mc = 0, md = - 1\<rparr>,
      \<lparr>ma = 0, mb = 0, mc = 0, md = 0\<rparr>}) = 8"
  by (simp add: analyze_stability analyze_trace analyze_determinant analyze_discriminant)

section \<open>The eigenvectors\<close>











section \<open>The loop of the integrator\<close>

text \<open>
  One pass through the loop body is the Runge-Kutta step of the specification and
  four evaluations of \<^verbatim>\<open>f\<close>; the loop appends \<open>pushed\<close> to the points it has and
  adds four evaluations for each of its \<open>iterations\<close>.
\<close>

lemma rk_body_eq: "rk_body matrix h current n = (spec_rk4 matrix h current, n + 4)"
  by (simp add: rk_body_def spec_rk4_def f_call_def f_def padd_def pscale_def Let_def)

lemma beyond_cutoff_iff: "(\<bar>px p\<bar> > 20 \<or> \<bar>py p\<bar> > 20) = beyond_cutoff p"
  by (simp add: beyond_cutoff_def)

lemma pushed_Suc:
  "pushed matrix h (Suc k) current =
     (if beyond_cutoff (spec_rk4 matrix h current) then []
      else spec_rk4 matrix h current # pushed matrix h k (spec_rk4 matrix h current))"
  by (simp add: rk_body_eq Let_def)

declare pushed.simps(2) [simp del]

lemma iterations_Suc:
  "iterations matrix h (Suc k) current =
     (if beyond_cutoff (spec_rk4 matrix h current) then 1
      else Suc (iterations matrix h k (spec_rk4 matrix h current)))"
  by (simp add: rk_body_eq Let_def)

declare iterations.simps(2) [simp del]

lemma solve_loop_eq:
  "solve_loop matrix h steps i current points n =
     (points @ pushed matrix h (nat (steps - i)) current,
      n + 4 * iterations matrix h (nat (steps - i)) current)"
proof (induction matrix h steps i current points n rule: solve_loop.induct)
  case (1 matrix h steps i current points n)
  show ?case
  proof (cases "i < steps")
    case False
    then show ?thesis by (simp add: solve_loop.simps [of matrix h steps i])
  next
    case True
    then have left: "nat (steps - i) = Suc (nat (steps - (i + 1)))"
      by simp
    show ?thesis
    proof (cases "beyond_cutoff (spec_rk4 matrix h current)")
      case True
      with \<open>i < steps\<close> show ?thesis
        unfolding left pushed_Suc iterations_Suc
        by (simp add: solve_loop.simps [of matrix h steps i] rk_body_eq beyond_cutoff_iff)
    next
      case False
      have "solve_loop matrix h steps i current points n =
              solve_loop matrix h steps (i + 1) (spec_rk4 matrix h current)
                (points @ [spec_rk4 matrix h current]) (n + 4)"
        using \<open>i < steps\<close> False
        by (simp add: solve_loop.simps [of matrix h steps i] rk_body_eq beyond_cutoff_iff)
      also have "\<dots> =
              ((points @ [spec_rk4 matrix h current]) @
                 pushed matrix h (nat (steps - (i + 1))) (spec_rk4 matrix h current),
               (n + 4) + 4 * iterations matrix h (nat (steps - (i + 1))) (spec_rk4 matrix h current))"
        using \<open>i < steps\<close> False
        by (intro "1.IH" [of "(spec_rk4 matrix h current, n + 4)"])
           (simp_all add: rk_body_eq beyond_cutoff_iff)
      finally show ?thesis
        unfolding left pushed_Suc iterations_Suc using False by simp
    qed
  qed
qed

lemma solveODE_eq:
  "solveODE matrix initial steps dt forward =
     initial # pushed matrix (if forward then dt else - dt) (nat steps) initial"
  by (simp add: solveODE_def solveODE_run_def solve_loop_eq Let_def)

lemma solveODE_f_calls_eq:
  "solveODE_f_calls matrix initial steps dt forward =
     4 * iterations matrix (if forward then dt else - dt) (nat steps) initial"
  by (simp add: solveODE_f_calls_def solveODE_run_def solve_loop_eq Let_def)

lemma length_pushed: "length (pushed matrix h k current) \<le> k"
  by (induction k arbitrary: current) (simp_all add: pushed_Suc)

lemma iterations_eq:
  "iterations matrix h k current = min k (Suc (length (pushed matrix h k current)))"
  by (induction k arbitrary: current) (simp_all add: pushed_Suc iterations_Suc)

lemma pushed_chain:
  "i < length (pushed matrix h k current) \<Longrightarrow>
     pushed matrix h k current ! i = spec_rk4 matrix h ((current # pushed matrix h k current) ! i)"
proof (induction k arbitrary: current i)
  case 0
  then show ?case by simp
next
  case (Suc k)
  then show ?case
    by (cases i) (auto simp: pushed_Suc split: if_splits)
qed

lemma pushed_within:
  "p \<in> set (pushed matrix h k current) \<Longrightarrow> \<not> beyond_cutoff p"
  by (induction k arbitrary: current) (auto simp: pushed_Suc split: if_splits)

lemma pushed_cut:
  "j < k \<Longrightarrow> beyond_cutoff ((spec_rk4 matrix h ^^ Suc j) current) \<Longrightarrow>
     length (pushed matrix h k current) \<le> j"
proof (induction k arbitrary: current j)
  case 0
  then show ?case by simp
next
  case (Suc k)
  show ?case
  proof (cases "beyond_cutoff (spec_rk4 matrix h current)")
    case True
    then show ?thesis by (simp add: pushed_Suc)
  next
    case False
    with Suc.prems obtain j' where j: "j = Suc j'"
      by (cases j) auto
    with Suc.prems have "j' < k"
      and "beyond_cutoff ((spec_rk4 matrix h ^^ Suc j') (spec_rk4 matrix h current))"
      by (simp_all add: funpow_swap1)
    then have "length (pushed matrix h k (spec_rk4 matrix h current)) \<le> j'"
      by (rule Suc.IH)
    with False j show ?thesis by (simp add: pushed_Suc)
  qed
qed

section \<open>Properties of the integrator\<close>

text \<open>
  Claim C2. With \<open>h = stepSize\<close> when forward and \<open>h = - stepSize\<close> otherwise,
  every point of the returned sequence after the first is the classic four-stage
  Runge-Kutta step \<open>spec_rk4\<close> of the point before it; one pass through the loop body
  computes that step with exactly four evaluations of \<^verbatim>\<open>f\<close>; and a whole run
  evaluates \<^verbatim>\<open>f\<close> four times for each iteration it runs.
\<close>

theorem integrate_rk4_steps:
  "let h = (if forward then dt else - dt);
       r = solveODE matrix initial steps dt forward
   in (\<forall>i. Suc i < length r \<longrightarrow> r ! Suc i = spec_rk4 matrix h (r ! i))
    \<and> rk_body matrix h current n = (spec_rk4 matrix h current, n + 4)
    \<and> solveODE_f_calls matrix initial steps dt forward = 4 * min (nat steps) (length r)"
  unfolding Let_def solveODE_eq solveODE_f_calls_eq
  by (simp add: pushed_chain rk_body_eq iterations_eq)

theorem integrate_rk4_steps_witness:
  "solveODE \<lparr>ma = 0, mb = 1, mc = 0, md = 0\<rparr> \<lparr>px = 1, py = 2\<rparr> 2 1 False ! Suc 0 =
     \<lparr>px = - 1, py = 2\<rparr>
   \<and> solveODE_f_calls \<lparr>ma = 0, mb = 1, mc = 0, md = 0\<rparr> \<lparr>px = 1, py = 2\<rparr> 2 1 False = 8"
proof -
  have r: "solveODE \<lparr>ma = 0, mb = 1, mc = 0, md = 0\<rparr> \<lparr>px = 1, py = 2\<rparr> 2 1 False =
             [\<lparr>px = 1, py = 2\<rparr>, \<lparr>px = - 1, py = 2\<rparr>, \<lparr>px = - 3, py = 2\<rparr>]"
    by (simp add: solveODE_def solveODE_run_def solve_loop.simps rk_body_def f_call_def f_def
        Let_def)
  show ?thesis
    using integrate_rk4_steps [of False 1 "\<lparr>ma = 0, mb = 1, mc = 0, md = 0\<rparr>"
        "\<lparr>px = 1, py = 2\<rparr>" 2 "\<lparr>px = 1, py = 2\<rparr>" 0]
    by (simp add: r Let_def)
qed

text \<open>
  Claim C5. When the point computed by an iteration has a coordinate of absolute
  value above 20, the loop stops at once and returns the points accumulated so far,
  without that point. Consequently, when the Runge-Kutta orbit of the initial point is
  beyond the cutoff at some step \<open>j + 1 \<le> steps\<close>, the returned sequence has at most
  \<open>j + 1\<close> points, fewer than \<open>steps + 1\<close>, and none of its points after the first
  is beyond the cutoff.
\<close>

theorem integrate_cutoff:
  "(i < steps \<and> beyond_cutoff (fst (rk_body matrix h current n)) \<longrightarrow>
      fst (solve_loop matrix h steps i current points n) = points)
   \<and> (j < nat steps
        \<and> beyond_cutoff
            (((\<lambda>p. fst (rk_body matrix (if forward then dt else - dt) p 0)) ^^ Suc j) initial) \<longrightarrow>
      length (solveODE matrix initial steps dt forward) \<le> Suc j
      \<and> length (solveODE matrix initial steps dt forward) < nat steps + 1
      \<and> (\<forall>p \<in> set (tl (solveODE matrix initial steps dt forward)). \<not> beyond_cutoff p))"
proof (intro conjI impI)
  assume "i < steps \<and> beyond_cutoff (fst (rk_body matrix h current n))"
  then show "fst (solve_loop matrix h steps i current points n) = points"
    by (simp add: solve_loop.simps [of matrix h steps i] rk_body_eq beyond_cutoff_iff)
next
  assume "j < nat steps
    \<and> beyond_cutoff
        (((\<lambda>p. fst (rk_body matrix (if forward then dt else - dt) p 0)) ^^ Suc j) initial)"
  then have a: "j < nat steps
    \<and> beyond_cutoff ((spec_rk4 matrix (if forward then dt else - dt) ^^ Suc j) initial)"
    by (simp add: rk_body_eq)
  then have "length (pushed matrix (if forward then dt else - dt) (nat steps) initial) \<le> j"
    by (intro pushed_cut) simp_all
  then show "length (solveODE matrix initial steps dt forward) \<le> Suc j"
    by (simp add: solveODE_eq)
  with a show "length (solveODE matrix initial steps dt forward) < nat steps + 1"
    by simp
next
  show "\<forall>p \<in> set (tl (solveODE matrix initial steps dt forward)). \<not> beyond_cutoff p"
    by (simp add: solveODE_eq pushed_within)
qed

theorem integrate_cutoff_witness:
  "fst (solve_loop \<lparr>ma = 1, mb = 0, mc = 0, md = 1\<rparr> 1 3 0 \<lparr>px = 19, py = 0\<rparr>
          [\<lparr>px = 19, py = 0\<rparr>] 0) = [\<lparr>px = 19, py = 0\<rparr>]
   \<and> length (solveODE \<lparr>ma = 1, mb = 0, mc = 0, md = 1\<rparr> \<lparr>px = 19, py = 0\<rparr> 3 1 True) \<le> 1
   \<and> length (solveODE \<lparr>ma = 1, mb = 0, mc = 0, md = 1\<rparr> \<lparr>px = 19, py = 0\<rparr> 3 1 True) < 4"
proof -
  have s: "spec_rk4 \<lparr>ma = 1, mb = 0, mc = 0, md = 1\<rparr> 1 \<lparr>px = 19, py = 0\<rparr> =
             \<lparr>px = 1235 / 24, py = 0\<rparr>"
    by (simp add: spec_rk4_def f_def padd_def pscale_def Let_def)
  show ?thesis
    using integrate_cutoff [where i = 0 and steps = 3
        and matrix = "\<lparr>ma = 1, mb = 0, mc = 0, md = 1\<rparr>" and h = 1
        and current = "\<lparr>px = 19, py = 0\<rparr>" and n = 0 and points = "[\<lparr>px = 19, py = 0\<rparr>]"
        and j = 0 and forward = True and dt = 1 and initial = "\<lparr>px = 19, py = 0\<rparr>"]
    by (simp add: rk_body_eq s beyond_cutoff_def)
qed

text \<open>
  Claim C8. The returned sequence is never empty and its element of index 0 is the
  initial point; for a step count of 0 it is the one-element sequence of the initial
  point, in either direction.
\<close>

theorem integrate_first_point:
  "solveODE matrix initial steps dt forward \<noteq> []
   \<and> solveODE matrix initial steps dt forward ! 0 = initial
   \<and> solveODE matrix initial 0 dt forward = [initial]"
  by (simp add: solveODE_eq)



end
